theory Spec2Isabelle
  imports Main "HOL-Library.Multiset"
begin

section \<open>JavaScript strings\<close>

text \<open>
  A JavaScript string is a sequence of UTF-16 code units; \<open>s.split('')\<close> lists them one
  by one and \<open>c.charCodeAt(0)\<close> reads the number of such a unit. A string is therefore
  modelled as the list of its code units. Sums of code units stay far below \<open>2^53\<close>, so
  the arithmetic on JavaScript numbers is exact integer arithmetic here.
\<close>

type_synonym js_string = "nat list"

definition js :: "string \<Rightarrow> js_string" where
  "js s = map of_char s"

text \<open>\<open>s.split(sep)[0]\<close> for a separator of one code unit: the part before its first occurrence.\<close>

definition split_first :: "nat \<Rightarrow> js_string \<Rightarrow> js_string" where
  "split_first sep s = takeWhile (\<lambda>c. c \<noteq> sep) s"

text \<open>\<open>s.split('').reduce((acc, c) => acc + c.charCodeAt(0), 0)\<close>\<close>

definition charCodeSum :: "js_string \<Rightarrow> nat" where
  "charCodeSum s = foldl (\<lambda>acc c. acc + c) 0 s"

text \<open>The decimal representation of a non-negative integer, and ECMAScript's
  \<open>ToZeroPaddedDecimalString\<close> (pad on the left with zeros up to a minimal length).\<close>

fun decimal :: "nat \<Rightarrow> js_string" where
  "decimal n = (if n < 10 then [48 + n] else decimal (n div 10) @ [48 + n mod 10])"

declare decimal.simps [simp del]

definition ToZeroPaddedDecimalString :: "nat \<Rightarrow> nat \<Rightarrow> js_string" where
  "ToZeroPaddedDecimalString n minLength =
     replicate (minLength - length (decimal n)) 48 @ decimal n"

section \<open>ECMAScript time values\<close>

text \<open>
  A \<open>Date\<close> holds a time value: milliseconds since 1970-01-01T00:00:00Z. The model covers
  valid dates (an Invalid Date, whose time value is NaN, never arises from the component's
  own state) and does not bound the time value. The functions below are the abstract
  operations of ECMA-262, section "Time Values and Time Range" and following.
\<close>

type_synonym Date = int

definition msPerDay :: int where
  "msPerDay = 86400000"

definition Day :: "int \<Rightarrow> int" where
  "Day t = t div msPerDay"

definition TimeWithinDay :: "int \<Rightarrow> int" where
  "TimeWithinDay t = t mod msPerDay"

definition DaysInYear :: "int \<Rightarrow> int" where
  "DaysInYear y =
     (if y mod 4 \<noteq> 0 then 365
      else if y mod 100 \<noteq> 0 then 366
      else if y mod 400 \<noteq> 0 then 365
      else 366)"

definition DayFromYear :: "int \<Rightarrow> int" where
  "DayFromYear y =
     365 * (y - 1970) + (y - 1969) div 4 - (y - 1901) div 100 + (y - 1601) div 400"

text \<open>
  \<open>YearFromTime(t)\<close> is specified as the largest \<open>y\<close> with \<open>TimeFromYear(y) \<le> t\<close>. It is
  computed from an estimate over the 400-year cycle of 146097 days, corrected by at most
  one year; \<open>YearFromDay_bounds\<close> below shows that this is the specified year.
\<close>

definition YearFromDay :: "int \<Rightarrow> int" where
  "YearFromDay n =
     (let y0 = 1970 + (400 * n) div 146097
      in if DayFromYear (y0 + 1) \<le> n then y0 + 1
         else if n < DayFromYear y0 then y0 - 1
         else y0)"

definition YearFromTime :: "int \<Rightarrow> int" where
  "YearFromTime t = YearFromDay (Day t)"

definition InLeapYear :: "int \<Rightarrow> int" where
  "InLeapYear t = (if DaysInYear (YearFromTime t) = 366 then 1 else 0)"

definition DayWithinYear :: "int \<Rightarrow> int" where
  "DayWithinYear t = Day t - DayFromYear (YearFromTime t)"

text \<open>The day within the year on which month \<open>m\<close> (0 to 11) starts; \<open>m = 12\<close> gives the
  length of the year.\<close>

definition monthStartDay :: "int \<Rightarrow> int \<Rightarrow> int" where
  "monthStartDay m leap =
     (if m = 0 then 0 else if m = 1 then 31
      else if m = 2 then 59 + leap else if m = 3 then 90 + leap
      else if m = 4 then 120 + leap else if m = 5 then 151 + leap
      else if m = 6 then 181 + leap else if m = 7 then 212 + leap
      else if m = 8 then 243 + leap else if m = 9 then 273 + leap
      else if m = 10 then 304 + leap else if m = 11 then 334 + leap
      else 365 + leap)"

definition MonthFromTime :: "int \<Rightarrow> int" where
  "MonthFromTime t =
     (let d = DayWithinYear t; leap = InLeapYear t
      in if d < 31 then 0
         else if d < 59 + leap then 1
         else if d < 90 + leap then 2
         else if d < 120 + leap then 3
         else if d < 151 + leap then 4
         else if d < 181 + leap then 5
         else if d < 212 + leap then 6
         else if d < 243 + leap then 7
         else if d < 273 + leap then 8
         else if d < 304 + leap then 9
         else if d < 334 + leap then 10
         else 11)"

definition DateFromTime :: "int \<Rightarrow> int" where
  "DateFromTime t =
     DayWithinYear t - monthStartDay (MonthFromTime t) (InLeapYear t) + 1"

definition WeekDay :: "int \<Rightarrow> int" where
  "WeekDay t = (Day t + 4) mod 7"

definition HourFromTime :: "int \<Rightarrow> int" where
  "HourFromTime t = (t div 3600000) mod 24"

definition MinFromTime :: "int \<Rightarrow> int" where
  "MinFromTime t = (t div 60000) mod 60"

definition SecFromTime :: "int \<Rightarrow> int" where
  "SecFromTime t = (t div 1000) mod 60"

definition msFromTime :: "int \<Rightarrow> int" where
  "msFromTime t = t mod 1000"

definition MakeTime :: "int \<Rightarrow> int \<Rightarrow> int \<Rightarrow> int \<Rightarrow> int" where
  "MakeTime h m s ms = h * 3600000 + m * 60000 + s * 1000 + ms"

definition MakeDay :: "int \<Rightarrow> int \<Rightarrow> int \<Rightarrow> int" where
  "MakeDay year month date =
     (let ym = year + month div 12;
          mn = month mod 12;
          leap = (if DaysInYear ym = 366 then 1 else 0)
      in DayFromYear ym + monthStartDay mn leap + date - 1)"

definition MakeDate :: "int \<Rightarrow> int \<Rightarrow> int" where
  "MakeDate day time = day * msPerDay + time"

text \<open>
  Local time. The offset of the local time zone from UTC depends on the time (daylight
  saving) and is taken from the time zone data of the runtime: ECMA-262 leaves
  \<open>LocalTZA(t, isUTC)\<close> to the implementation. It is a parameter \<open>tz\<close> of every function
  that reads or writes local-time fields: \<open>tz t True\<close> is the offset in milliseconds in
  force at the time value \<open>t\<close>, and \<open>tz t False\<close> the offset by which the local time value
  \<open>t\<close> is interpreted (for a local time that a transition skips or repeats, the offset
  before the transition).
\<close>

type_synonym TimeZone = "int \<Rightarrow> bool \<Rightarrow> int"

definition LocalTime :: "TimeZone \<Rightarrow> Date \<Rightarrow> int" where
  "LocalTime tz t = t + tz t True"

definition UTC :: "TimeZone \<Rightarrow> int \<Rightarrow> Date" where
  "UTC tz t = t - tz t False"

subsection \<open>Methods of \<open>Date\<close>\<close>

definition getTime :: "Date \<Rightarrow> int" where
  "getTime d = d"

definition getFullYear :: "TimeZone \<Rightarrow> Date \<Rightarrow> int" where
  "getFullYear tz d = YearFromTime (LocalTime tz d)"

definition getMonth :: "TimeZone \<Rightarrow> Date \<Rightarrow> int" where
  "getMonth tz d = MonthFromTime (LocalTime tz d)"

definition getDate :: "TimeZone \<Rightarrow> Date \<Rightarrow> int" where
  "getDate tz d = DateFromTime (LocalTime tz d)"

definition getDay_js :: "TimeZone \<Rightarrow> Date \<Rightarrow> int" where
  "getDay_js tz d = WeekDay (LocalTime tz d)"

definition setDate :: "TimeZone \<Rightarrow> Date \<Rightarrow> int \<Rightarrow> Date" where
  "setDate tz d dt =
     (let t = LocalTime tz d
      in UTC tz (MakeDate (MakeDay (YearFromTime t) (MonthFromTime t) dt) (TimeWithinDay t)))"

definition setHours :: "TimeZone \<Rightarrow> Date \<Rightarrow> int \<Rightarrow> int \<Rightarrow> int \<Rightarrow> int \<Rightarrow> Date" where
  "setHours tz d h m s ms =
     (let t = LocalTime tz d
      in UTC tz (MakeDate (Day t) (MakeTime h m s ms)))"

definition setFullYear :: "TimeZone \<Rightarrow> Date \<Rightarrow> int \<Rightarrow> int \<Rightarrow> int \<Rightarrow> Date" where
  "setFullYear tz d y m dt =
     (let t = LocalTime tz d
      in UTC tz (MakeDate (MakeDay y m dt) (TimeWithinDay t)))"

text \<open>\<open>toISOString\<close> prints the UTC fields: \<open>YYYY-MM-DDTHH:mm:ss.sssZ\<close>, the year with a sign
  and six digits when it is outside 0 to 9999.\<close>

definition isoYear :: "int \<Rightarrow> js_string" where
  "isoYear y =
     (if 0 \<le> y \<and> y \<le> 9999 then ToZeroPaddedDecimalString (nat y) 4
      else (if y < 0 then js ''-'' else js ''+'') @ ToZeroPaddedDecimalString (nat \<bar>y\<bar>) 6)"

definition toISOString :: "Date \<Rightarrow> js_string" where
  "toISOString t =
     isoYear (YearFromTime t) @ js ''-''
       @ ToZeroPaddedDecimalString (nat (MonthFromTime t + 1)) 2 @ js ''-''
       @ ToZeroPaddedDecimalString (nat (DateFromTime t)) 2 @ js ''T''
       @ ToZeroPaddedDecimalString (nat (HourFromTime t)) 2 @ js '':''
       @ ToZeroPaddedDecimalString (nat (MinFromTime t)) 2 @ js '':''
       @ ToZeroPaddedDecimalString (nat (SecFromTime t)) 2 @ js ''.''
       @ ToZeroPaddedDecimalString (nat (msFromTime t)) 3 @ js ''Z''"

text \<open>The ISO-8601 day string of a date, \<open>YYYY-MM-DD\<close> in UTC, stated on its own.\<close>

definition isoDayString :: "Date \<Rightarrow> js_string" where
  "isoDayString t =
     isoYear (YearFromTime t) @ js ''-''
       @ ToZeroPaddedDecimalString (nat (MonthFromTime t + 1)) 2 @ js ''-''
       @ ToZeroPaddedDecimalString (nat (DateFromTime t)) 2"

section \<open>The calendar scheduler: availability\<close>

definition getDateAvailability :: "Date \<Rightarrow> bool" where
  "getDateAvailability date =
     (let dateStr = split_first (of_char CHR ''T'') (toISOString date);
          hash = charCodeSum dateStr
      in hash mod 5 \<noteq> 0)"

definition getTimeSlotAvailability :: "Date \<Rightarrow> js_string \<Rightarrow> bool" where
  "getTimeSlotAvailability date time =
     (let dateStr = split_first (of_char CHR ''T'') (toISOString date)
      in if \<not> getDateAvailability date then False
         else (let combined = dateStr @ js ''-'' @ time;
                   hash = charCodeSum combined
               in hash mod 2 = 0))"

definition hasAvailableSlots :: "Date \<Rightarrow> js_string list \<Rightarrow> bool" where
  "hasAvailableSlots date slots = list_ex (\<lambda>slot. getTimeSlotAvailability date slot) slots"

section \<open>Strings: basic facts\<close>

lemma charCodeSum_sum_list: "charCodeSum s = sum_list s"
proof -
  have "foldl (\<lambda>acc c. acc + c) a s = a + sum_list s" for a :: nat
    by (induction s arbitrary: a) simp_all
  then show ?thesis by (simp add: charCodeSum_def)
qed

lemma decimal_digits: "c \<in> set (decimal n) \<Longrightarrow> 48 \<le> c \<and> c \<le> 57"
proof (induction n arbitrary: c rule: decimal.induct)
  case (1 n)
  show ?case
  proof (cases "n < 10")
    case True
    with "1.prems" show ?thesis by (simp add: decimal.simps [of n])
  next
    case False
    with "1.prems" have "c \<in> set (decimal (n div 10)) \<or> c = 48 + n mod 10"
      by (auto simp: decimal.simps [of n])
    then show ?thesis
    proof
      assume "c \<in> set (decimal (n div 10))"
      with False "1.IH" show ?thesis by simp
    next
      assume "c = 48 + n mod 10"
      moreover have "n mod 10 < 10" by simp
      ultimately show ?thesis by linarith
    qed
  qed
qed

lemma padded_digits: "c \<in> set (ToZeroPaddedDecimalString n k) \<Longrightarrow> 48 \<le> c \<and> c \<le> 57"
  by (auto simp: ToZeroPaddedDecimalString_def dest: decimal_digits)

lemma isoYear_no_T: "c \<in> set (isoYear y) \<Longrightarrow> c \<noteq> 84"
  by (auto simp: isoYear_def js_def split: if_splits dest: padded_digits)

lemma isoDayString_no_T: "c \<in> set (isoDayString t) \<Longrightarrow> c \<noteq> 84"
  by (auto simp: isoDayString_def js_def dest: padded_digits isoYear_no_T)

lemma toISOString_split: "\<exists>rest. toISOString t = isoDayString t @ 84 # rest"
  by (simp add: toISOString_def isoDayString_def js_def)

lemma split_T_toISOString: "split_first 84 (toISOString t) = isoDayString t"
proof -
  obtain rest where r: "toISOString t = isoDayString t @ 84 # rest"
    using toISOString_split by blast
  have "takeWhile (\<lambda>c. c \<noteq> 84) (isoDayString t @ 84 # rest)
      = takeWhile (\<lambda>c. c \<noteq> 84) (isoDayString t)"
    by (rule takeWhile_tail) simp
  also have "\<dots> = isoDayString t"
    using isoDayString_no_T [of _ t] by (simp add: takeWhile_eq_all_conv)
  finally show ?thesis using r by (simp add: split_first_def)
qed

section \<open>Calendar arithmetic\<close>

text \<open>
  The year computed by \<open>YearFromDay\<close> is the one ECMA-262 specifies: the day lies between
  the first day of that year and the first day of the next one. The estimate
  \<open>DayFromYear_est\<close> bounds the distance of \<open>DayFromYear\<close> from the mean year length, which
  is why one correction step is enough.
\<close>

lemma div_sandwich: "(k::int) > 0 \<Longrightarrow> k * (a div k) \<le> a \<and> a < k * (a div k) + k"
proof -
  assume k: "k > 0"
  have "k * (a div k) + a mod k = a" by (rule mult_div_mod_eq)
  moreover have "0 \<le> a mod k" "a mod k < k" using k by simp_all
  ultimately show ?thesis by linarith
qed

lemma est_linear:
  fixes y q4 q100 q400 :: int
  assumes "4 * q4 \<le> y - 1969" "y - 1969 < 4 * q4 + 4"
    and "100 * q100 \<le> y - 1901" "y - 1901 < 100 * q100 + 100"
    and "400 * q400 \<le> y - 1601" "y - 1601 < 400 * q400 + 400"
  shows "146097 * (y - 1970) - 600 \<le> 400 * (365 * (y - 1970) + q4 - q100 + q400)"
    and "400 * (365 * (y - 1970) + q4 - q100 + q400) \<le> 146097 * (y - 1970) + 600"
  using assms by (simp_all add: algebra_simps)

lemma DayFromYear_est:
  "146097 * (y - 1970) - 600 \<le> 400 * DayFromYear y \<and> 400 * DayFromYear y \<le> 146097 * (y - 1970) + 600"
proof -
  have a: "4 * ((y - 1969) div 4) \<le> y - 1969" "y - 1969 < 4 * ((y - 1969) div 4) + 4"
    using div_sandwich [of 4 "y - 1969"] by simp_all
  have b: "100 * ((y - 1901) div 100) \<le> y - 1901" "y - 1901 < 100 * ((y - 1901) div 100) + 100"
    using div_sandwich [of 100 "y - 1901"] by simp_all
  have c: "400 * ((y - 1601) div 400) \<le> y - 1601" "y - 1601 < 400 * ((y - 1601) div 400) + 400"
    using div_sandwich [of 400 "y - 1601"] by simp_all
  show ?thesis
    unfolding DayFromYear_def using est_linear [OF a b c] by simp
qed

lemma YearFromDay_bounds:
  "DayFromYear (YearFromDay n) \<le> n \<and> n < DayFromYear (YearFromDay n + 1)"
proof -
  define y0 where "y0 = 1970 + (400 * n) div 146097"
  have q: "146097 * (y0 - 1970) \<le> 400 * n \<and> 400 * n < 146097 * (y0 - 1970) + 146097"
    using div_sandwich [of 146097 "400 * n"] by (simp add: y0_def)
  have "400 * DayFromYear (y0 - 1) \<le> 400 * n"
    using DayFromYear_est [of "y0 - 1"] q by (simp add: algebra_simps)
  then have lo: "DayFromYear (y0 - 1) \<le> n" by simp
  have "400 * n < 400 * DayFromYear (y0 + 2)"
    using DayFromYear_est [of "y0 + 2"] q by (simp add: algebra_simps)
  then have hi: "n < DayFromYear (y0 + 2)" by simp
  have "YearFromDay n = (if DayFromYear (y0 + 1) \<le> n then y0 + 1
         else if n < DayFromYear y0 then y0 - 1 else y0)"
    by (simp add: YearFromDay_def y0_def Let_def)
  with lo hi show ?thesis by (auto simp: add.commute)
qed

lemma DaysInYear_bounds: "365 \<le> DaysInYear y \<and> DaysInYear y \<le> 366"
  by (simp add: DaysInYear_def)

lemma div_succ:
  fixes a k :: int
  assumes k: "1 < k"
  shows "(a + 1) div k = a div k + (if (a + 1) mod k = 0 then 1 else 0)"
proof -
  have a: "a = k * (a div k) + a mod k" by simp
  have r: "0 \<le> a mod k" "a mod k < k" using k by simp_all
  show ?thesis
  proof (cases "a mod k + 1 < k")
    case True
    have e: "a + 1 = k * (a div k) + (a mod k + 1)" using a by linarith
    have "(a + 1) div k = a div k"
      by (rule int_div_pos_eq [OF e]) (use r True in simp_all)
    moreover have "(a + 1) mod k = a mod k + 1"
      by (rule int_mod_pos_eq [OF e]) (use r True in simp_all)
    ultimately show ?thesis using r by simp
  next
    case False
    with r have rk: "a mod k + 1 = k" by linarith
    have "a + 1 = k * (a div k) + k" using a rk by linarith
    then have e: "a + 1 = k * (a div k + 1) + 0" by (simp add: algebra_simps)
    have "(a + 1) div k = a div k + 1"
      by (rule int_div_pos_eq [OF e]) (use k in simp_all)
    moreover have "(a + 1) mod k = 0"
      by (rule int_mod_pos_eq [OF e]) (use k in simp_all)
    ultimately show ?thesis by simp
  qed
qed

lemma mod_shift:
  fixes y :: int
  shows "(y - 1968) mod 4 = y mod 4" "(y - 1900) mod 100 = y mod 100"
    "(y - 1600) mod 400 = y mod 400"
proof -
  have "(y + 4 * (- 492)) mod 4 = y mod 4" by (rule mod_mult_self2)
  then show "(y - 1968) mod 4 = y mod 4" by simp
  have "(y + 100 * (- 19)) mod 100 = y mod 100" by (rule mod_mult_self2)
  then show "(y - 1900) mod 100 = y mod 100" by simp
  have "(y + 400 * (- 4)) mod 400 = y mod 400" by (rule mod_mult_self2)
  then show "(y - 1600) mod 400 = y mod 400" by simp
qed

lemma leap_divisors:
  fixes y :: int
  shows "y mod 100 = 0 \<Longrightarrow> y mod 4 = 0" "y mod 400 = 0 \<Longrightarrow> y mod 100 = 0"
proof -
  have "(4::int) dvd 100" "(100::int) dvd 400" by simp_all
  then show "y mod 100 = 0 \<Longrightarrow> y mod 4 = 0" "y mod 400 = 0 \<Longrightarrow> y mod 100 = 0"
    by (meson dvd_trans mod_eq_0_iff_dvd)+
qed

lemma DayFromYear_Suc: "DayFromYear (y + 1) = DayFromYear y + DaysInYear y"
proof -
  have a: "(y - 1968) div 4 = (y - 1969) div 4 + (if y mod 4 = 0 then 1 else 0)"
    using div_succ [of 4 "y - 1969"] by (simp add: mod_shift)
  have b: "(y - 1900) div 100 = (y - 1901) div 100 + (if y mod 100 = 0 then 1 else 0)"
    using div_succ [of 100 "y - 1901"] by (simp add: mod_shift)
  have c: "(y - 1600) div 400 = (y - 1601) div 400 + (if y mod 400 = 0 then 1 else 0)"
    using div_succ [of 400 "y - 1601"] by (simp add: mod_shift)
  have "DayFromYear (y + 1)
      = 365 * (y - 1969) + (y - 1968) div 4 - (y - 1900) div 100 + (y - 1600) div 400"
    by (simp add: DayFromYear_def)
  also have "\<dots> = DayFromYear y + DaysInYear y"
    unfolding a b c DayFromYear_def DaysInYear_def
    using leap_divisors [of y] by (simp split: if_splits)
  finally show ?thesis .
qed


lemma DayFromYear_less: "DayFromYear y < DayFromYear (y + 1)"
  using DaysInYear_bounds [of y] by (simp add: DayFromYear_Suc)

lemma DayFromYear_mono: "y \<le> y' \<Longrightarrow> DayFromYear y \<le> DayFromYear y'"
proof (induction y' rule: int_ge_induct)
  case base
  show ?case by simp
next
  case (step i)
  with DayFromYear_less [of i] show ?case by simp
qed

lemma YearFromDay_unique:
  assumes "DayFromYear y \<le> n" and "n < DayFromYear (y + 1)"
  shows "YearFromDay n = y"
proof (rule ccontr)
  assume ne: "YearFromDay n \<noteq> y"
  let ?z = "YearFromDay n"
  from YearFromDay_bounds [of n]
  have z: "DayFromYear ?z \<le> n" "n < DayFromYear (?z + 1)" by simp_all
  from ne consider "?z + 1 \<le> y" | "y + 1 \<le> ?z" by linarith
  then show False
  proof cases
    case 1
    from DayFromYear_mono [OF 1] z assms show False by simp
  next
    case 2
    from DayFromYear_mono [OF 2] z assms show False by simp
  qed
qed






lemma Day_MakeDate: "0 \<le> tm \<Longrightarrow> tm < msPerDay \<Longrightarrow> Day (MakeDate d tm) = d"
  by (simp add: Day_def MakeDate_def msPerDay_def)

lemma TimeWithinDay_MakeDate:
  "0 \<le> tm \<Longrightarrow> tm < msPerDay \<Longrightarrow> TimeWithinDay (MakeDate d tm) = tm"
  by (simp add: TimeWithinDay_def MakeDate_def msPerDay_def)


lemma MakeDate_Day: "MakeDate (Day t) (TimeWithinDay t) = t"
  by (simp add: MakeDate_def Day_def TimeWithinDay_def)


section \<open>The functions of date-fns used by the components\<close>

text \<open>
  The components import these functions from the library date-fns; they are modelled
  after the library's implementation, which works on the local-time fields of a \<open>Date\<close>
  through its getters and setters. \<open>addDays\<close> is \<open>setDate(getDate() + amount)\<close> (and
  returns the date as it is for the amount 0),
  \<open>startOfMonth\<close> is \<open>setDate(1); setHours(0, 0, 0, 0)\<close>, \<open>endOfMonth\<close> is
  \<open>setFullYear(getFullYear(), getMonth() + 1, 0); setHours(23, 59, 59, 999)\<close>.
\<close>

definition addDays :: "TimeZone \<Rightarrow> Date \<Rightarrow> int \<Rightarrow> Date" where
  "addDays tz date amount =
     (if amount = 0 then date else setDate tz date (getDate tz date + amount))"

definition startOfDay :: "TimeZone \<Rightarrow> Date \<Rightarrow> Date" where
  "startOfDay tz date = setHours tz date 0 0 0 0"

definition startOfMonth :: "TimeZone \<Rightarrow> Date \<Rightarrow> Date" where
  "startOfMonth tz date = setHours tz (setDate tz date 1) 0 0 0 0"

definition endOfMonth :: "TimeZone \<Rightarrow> Date \<Rightarrow> Date" where
  "endOfMonth tz date =
     (let month = getMonth tz date
      in setHours tz (setFullYear tz date (getFullYear tz date) (month + 1) 0) 23 59 59 999)"

definition getDay :: "TimeZone \<Rightarrow> Date \<Rightarrow> int" where
  "getDay tz date = getDay_js tz date"

definition isSameDay :: "TimeZone \<Rightarrow> Date \<Rightarrow> Date \<Rightarrow> bool" where
  "isSameDay tz a b = (startOfDay tz a = startOfDay tz b)"

definition isBefore :: "Date \<Rightarrow> Date \<Rightarrow> bool" where
  "isBefore date dateToCompare = (date < dateToCompare)"

text \<open>\<open>isToday\<close>, \<open>isFuture\<close> and \<open>isPast\<close> read the clock (\<open>Date.now()\<close>), here the
  parameter \<open>now\<close>.\<close>

definition isToday :: "TimeZone \<Rightarrow> Date \<Rightarrow> Date \<Rightarrow> bool" where
  "isToday tz now date = isSameDay tz date now"

definition isFuture :: "Date \<Rightarrow> Date \<Rightarrow> bool" where
  "isFuture now date = (date > now)"

definition isPast :: "Date \<Rightarrow> Date \<Rightarrow> bool" where
  "isPast now date = (date < now)"

text \<open>
  \<open>eachDayOfInterval\<close> (date-fns 3) walks from the start of the first day to the end of
  the interval, a day at a time; an interval given backwards yields the days in reverse.
  Whether the loop ends depends on the time zone data, so the result is optional: \<open>None\<close>
  stands for a loop that never ends.
\<close>

partial_function (option) eachDay_loop ::
  "TimeZone \<Rightarrow> int \<Rightarrow> Date \<Rightarrow> Date list \<Rightarrow> Date list option"
where
  "eachDay_loop tz endTime currentDate dates =
     (if currentDate \<le> endTime
      then eachDay_loop tz endTime
             (setHours tz (setDate tz currentDate (getDate tz currentDate + 1)) 0 0 0 0)
             (dates @ [currentDate])
      else Some dates)"

declare eachDay_loop.simps [code]

definition eachDayOfInterval :: "TimeZone \<Rightarrow> Date \<Rightarrow> Date \<Rightarrow> Date list option" where
  "eachDayOfInterval tz startDate endDate =
     (let reversed = (startDate > endDate);
          endTime = (if reversed then startDate else endDate);
          currentDate = setHours tz (if reversed then endDate else startDate) 0 0 0 0
      in case eachDay_loop tz endTime currentDate [] of
           None \<Rightarrow> None
         | Some dates \<Rightarrow> Some (if reversed then rev dates else dates))"

text \<open>
  The computation of \<open>gridDays\<close> in the body of the component. \<open>Array(n)\<close> throws a
  \<open>RangeError\<close> for a negative \<open>n\<close>; \<open>Array(n).fill(null).map((_, i) => f(i))\<close> is the list
  of \<open>f(0)\<close> to \<open>f(n - 1)\<close> otherwise. The result is \<open>None\<close> when \<open>eachDayOfInterval\<close>
  does not return.
\<close>

datatype js_error = RangeError

definition Array_map :: "int \<Rightarrow> (int \<Rightarrow> 'a) \<Rightarrow> js_error + 'a list" where
  "Array_map n f = (if n < 0 then Inl RangeError else Inr (map f [0..n - 1]))"

definition gridDays :: "TimeZone \<Rightarrow> Date \<Rightarrow> (js_error + Date list) option" where
  "gridDays tz currentMonth =
     (let monthStart = startOfMonth tz currentMonth;
          monthEnd = endOfMonth tz currentMonth
      in case eachDayOfInterval tz monthStart monthEnd of
           None \<Rightarrow> None
         | Some calendarDays \<Rightarrow>
             (let firstDayOfWeek = getDay tz monthStart
              in Some
                (case Array_map firstDayOfWeek
                        (\<lambda>i. addDays tz monthStart (- (firstDayOfWeek - i))) of
                   Inl e \<Rightarrow> Inl e
                 | Inr prevMonthDays \<Rightarrow>
                     (let allDays = prevMonthDays @ calendarDays;
                          remainingDays = 42 - int (length allDays)
                      in case Array_map remainingDays (\<lambda>i. addDays tz monthEnd (i + 1)) of
                           Inl e \<Rightarrow> Inl e
                         | Inr nextMonthDays \<Rightarrow> Inr (allDays @ nextMonthDays)))))"

section \<open>Time zones\<close>

text \<open>
  Universal time, and the offsets of the zone Europe/Paris in 2025: one hour ahead of UTC,
  two hours between 30 March, 01:00 UTC, and 26 October, 01:00 UTC. The local hour from
  02:00 on 30 March is skipped and the one from 02:00 on 26 October is repeated; both are
  interpreted with the offset before the transition.

  The offsets of the zone Pacific/Apia at the end of 2011: ten hours behind UTC until 30
  December 2011, 10:00 UTC, and fourteen hours ahead from then on. The local calendar went
  from 29 December to 31 December; the local times of 30 December are skipped.
\<close>

definition utcZone :: TimeZone where
  "utcZone t isUTC = 0"

definition europeParis2025 :: TimeZone where
  "europeParis2025 t isUTC =
     (if isUTC
      then (if t < 1743296400000 then 3600000
            else if t < 1761440400000 then 7200000 else 3600000)
      else (if t < 1743303600000 then 3600000
            else if t < 1761447600000 then 7200000 else 3600000))"

definition pacificApia2011 :: TimeZone where
  "pacificApia2011 t isUTC =
     (if isUTC
      then (if t < 1325239200000 then - 36000000 else 50400000)
      else (if t < 1325289600000 then - 36000000 else 50400000))"

text \<open>
  The statements about calendar days are made for time zones that keep the calendar:
  every local time is interpreted as a time of its own calendar day, a time of an earlier
  local day is interpreted as earlier than every time of a later local day, and no time
  of a day is interpreted as earlier than the start of that day. Zones with a fixed offset
  and zones with the usual daylight-saving shifts of an hour are of this kind
  (\<open>calendarZone_utc\<close>, \<open>calendarZone_europeParis2025\<close>); a zone that drops a whole calendar
  day is not (\<open>not_calendarZone_pacificApia2011\<close>).
\<close>

definition calendarZone :: "TimeZone \<Rightarrow> bool" where
  "calendarZone tz \<longleftrightarrow>
     (\<forall>t. Day (LocalTime tz (UTC tz t)) = Day t)
     \<and> (\<forall>n n' tm tm'. n < n' \<and> 0 \<le> tm \<and> tm < msPerDay \<and> 0 \<le> tm' \<and> tm' < msPerDay
           \<longrightarrow> UTC tz (MakeDate n tm) < UTC tz (MakeDate n' tm'))
     \<and> (\<forall>n tm. 0 \<le> tm \<and> tm < msPerDay
           \<longrightarrow> UTC tz (MakeDate n 0) \<le> UTC tz (MakeDate n tm))"

text \<open>A date is on a local day, at a time within that day.\<close>

definition localDay :: "TimeZone \<Rightarrow> Date \<Rightarrow> int" where
  "localDay tz d = Day (LocalTime tz d)"


definition atLocal :: "TimeZone \<Rightarrow> int \<Rightarrow> int \<Rightarrow> Date" where
  "atLocal tz day tm = UTC tz (MakeDate day tm)"




subsection \<open>Dates as local day and time of day\<close>

lemma zone_roundtrip: "calendarZone tz \<Longrightarrow> Day (LocalTime tz (UTC tz t)) = Day t"
  by (simp add: calendarZone_def)



lemma localDay_atLocal:
  "calendarZone tz \<Longrightarrow> 0 \<le> tm \<Longrightarrow> tm < msPerDay \<Longrightarrow> localDay tz (atLocal tz n tm) = n"
  by (simp add: localDay_def atLocal_def zone_roundtrip Day_MakeDate)



lemma setHours_atLocal:
  "setHours tz d h m s ms = atLocal tz (localDay tz d) (MakeTime h m s ms)"
  by (simp add: setHours_def atLocal_def localDay_def Let_def)








subsection \<open>Months and the calendar grid\<close>

















subsection \<open>Time zones that keep the calendar\<close>


lemma Day_mono: "x \<le> y \<Longrightarrow> Day x \<le> Day y"
  by (simp add: Day_def msPerDay_def zdiv_mono1)

text \<open>Where local time keeps the day of every local time and its day never runs
  backwards as time passes, the local days are interpreted in their order.\<close>

lemma day_order_from_mono:
  assumes roundtrip: "\<And>t. Day (LocalTime tz (UTC tz t)) = Day t"
    and mono: "\<And>t t'. t \<le> t' \<Longrightarrow> Day (LocalTime tz t) \<le> Day (LocalTime tz t')"
    and "n < n'" and "0 \<le> tm" "tm < msPerDay" and "0 \<le> tm'" "tm' < msPerDay"
  shows "UTC tz (MakeDate n tm) < UTC tz (MakeDate n' tm')"
proof (rule ccontr)
  assume "\<not> UTC tz (MakeDate n tm) < UTC tz (MakeDate n' tm')"
  then have "UTC tz (MakeDate n' tm') \<le> UTC tz (MakeDate n tm)"
    by simp
  then have "Day (LocalTime tz (UTC tz (MakeDate n' tm')))
      \<le> Day (LocalTime tz (UTC tz (MakeDate n tm)))"
    by (rule mono)
  then have "Day (MakeDate n' tm') \<le> Day (MakeDate n tm)"
    by (simp only: roundtrip)
  with assms(3-7) show False
    by (simp add: Day_MakeDate)
qed

lemma calendarZone_utc: "calendarZone utcZone"
proof -
  have "UTC utcZone (MakeDate n tm) < UTC utcZone (MakeDate n' tm')"
    if "n < n'" "0 \<le> tm" "tm < msPerDay" "0 \<le> tm'" "tm' < msPerDay" for n n' tm tm'
    using _ _ that
    by (rule day_order_from_mono) (simp_all add: LocalTime_def UTC_def utcZone_def Day_mono)
  then show ?thesis
    unfolding calendarZone_def by (simp add: UTC_def LocalTime_def utcZone_def MakeDate_def)
qed






lemma not_calendarZone_pacificApia2011: "\<not> calendarZone pacificApia2011"
proof
  assume "calendarZone pacificApia2011"
  then have "Day (LocalTime pacificApia2011 (UTC pacificApia2011 1325221200000))
      = Day 1325221200000"
    by (rule zone_roundtrip)
  then show False
    by (simp add: LocalTime_def UTC_def pacificApia2011_def Day_def msPerDay_def)
qed

section \<open>Properties of the availability helpers\<close>

text \<open>
  Claim C1. For every date, \<open>getDateAvailability\<close> is a function of the date's ISO-8601
  day string: it is true exactly when the sum of the code units of that string, the
  part of \<open>toISOString()\<close> before the \<open>T\<close>, is not divisible by 5.
\<close>

theorem getDateAvailability_iso_hash:
  "getDateAvailability d \<longleftrightarrow> \<not> 5 dvd sum_list (isoDayString d)"
  by (simp add: getDateAvailability_def split_T_toISOString charCodeSum_sum_list
      dvd_eq_mod_eq_0 Let_def)

text \<open>2025-01-01 hashes to 485 and is fully booked; 2025-01-31 hashes to 488 and is not.\<close>

lemma getDateAvailability_examples:
  "isoDayString 1735689600000 = js ''2025-01-01''"
  "\<not> getDateAvailability 1735689600000"
  "getDateAvailability 1738324800000"
  by code_simp+

text \<open>
  Claim C2. \<open>getTimeSlotAvailability\<close> is false whenever \<open>getDateAvailability\<close> of the date
  is false, and otherwise true exactly when the sum of the code units of the day string,
  a hyphen and the time is even; \<open>hasAvailableSlots\<close> is true exactly when some slot
  of the list is available.
\<close>

theorem getTimeSlotAvailability_hash:
  "(getTimeSlotAvailability d slot \<longleftrightarrow>
      getDateAvailability d \<and> even (sum_list (isoDayString d @ js ''-'' @ slot)))
   \<and> (hasAvailableSlots d slots \<longleftrightarrow>
      (\<exists>slot' \<in> set slots. getTimeSlotAvailability d slot'))"
  by (simp add: getTimeSlotAvailability_def hasAvailableSlots_def split_T_toISOString
      charCodeSum_sum_list Let_def list_ex_iff even_iff_mod_2_eq_zero)

theorem getTimeSlotAvailability_hash_witness:
  "\<not> getTimeSlotAvailability 1735689600000 (js ''09:00'')
   \<and> getTimeSlotAvailability 1738324800000 (js ''09:00'')
   \<and> \<not> getTimeSlotAvailability 1738324800000 (js ''08:00'')
   \<and> hasAvailableSlots 1738324800000 [js ''08:00'', js ''09:00'']"
proof -
  have a: "\<not> getDateAvailability 1735689600000" "getDateAvailability 1738324800000"
    by code_simp+
  have b: "even (sum_list (isoDayString 1738324800000 @ js ''-'' @ js ''09:00''))"
    "\<not> even (sum_list (isoDayString 1738324800000 @ js ''-'' @ js ''08:00''))"
    by code_simp+
  have c: "\<not> getTimeSlotAvailability 1735689600000 (js ''09:00'')"
    "getTimeSlotAvailability 1738324800000 (js ''09:00'')"
    "\<not> getTimeSlotAvailability 1738324800000 (js ''08:00'')"
    using a b getTimeSlotAvailability_hash [of 1735689600000 "js ''09:00''" "[]"]
      getTimeSlotAvailability_hash [of 1738324800000 "js ''09:00''" "[]"]
      getTimeSlotAvailability_hash [of 1738324800000 "js ''08:00''" "[]"]
    by blast+
  then have "hasAvailableSlots 1738324800000 [js ''08:00'', js ''09:00'']"
    using getTimeSlotAvailability_hash [of 1738324800000 "js ''09:00''"
        "[js ''08:00'', js ''09:00'']"]
    by simp
  with c show ?thesis by blast
qed

section \<open>The calendar grid\<close>

text \<open>The inputs of the examples: noon UTC of 1 January, 31 January and 1 March 2025, and of
  15 December 2011.\<close>

definition janFirst2025 :: Date where
  "janFirst2025 = 1735689600000"

definition janLast2025 :: Date where
  "janLast2025 = 1738324800000"

definition marFirst2025 :: Date where
  "marFirst2025 = 1740830400000"

definition decMid2011 :: Date where
  "decMid2011 = 1323950400000"




text \<open>
  January 2025 starts on a Wednesday: in UTC the grid runs from Sunday 2024-12-29 (day
  20086) to Saturday 2025-02-08 (day 20127). March 2025 in Paris starts on a Saturday and
  contains the change to summer time: entry 35 is 30 March, 00:00 CET, and entry 36 is 31
  March, 00:00 CEST, 23 hours later.
\<close>

lemma gridDays_january_2025:
  "map_option (map_sum id (map (localDay utcZone))) (gridDays utcZone janLast2025)
   = Some (Inr [20086..20127])"
  by code_simp

lemma gridDays_march_2025_paris:
  "map_option (map_sum id (\<lambda>g. (g ! 35, g ! 36))) (gridDays europeParis2025 marFirst2025)
   = Some (Inr (1743289200000, 1743372000000))"
  by code_simp

text \<open>
  The condition on the time zone is needed. December 2011 in Apia has no 30th: the grid
  holds 42 entries, but it goes from 29 December (day 15337) to 31 December (day 15339)
  and ends on 8 January.
\<close>

lemma gridDays_december_2011_apia:
  "map_option (map_sum id (map (localDay pacificApia2011)))
     (gridDays pacificApia2011 decMid2011)
   = Some (Inr ([15305..15337] @ [15339..15347]))"
  by code_simp

section \<open>The CalendarScheduler component\<close>

text \<open>
  The properties of the component: \<open>timeSlots\<close> and \<open>disabledDates\<close> are optional; for the
  optional callbacks \<open>onConfirm\<close> and \<open>onDateChange\<close> the record says whether the parent
  passed one, and every invocation is recorded as a \<open>callback_call\<close>.
\<close>

record CalendarSchedulerProps =
  timeSlots :: "js_string list option"
  onConfirm :: bool
  onDateChange :: bool
  disabledDates :: "(Date \<Rightarrow> bool) option"

datatype callback_call =
    OnDateChange Date
  | OnConfirm "Date option" "js_string option"

text \<open>The state of the component (its three \<open>useState\<close> cells).\<close>

record scheduler_state =
  currentMonth :: Date
  selectedDate :: "Date option"
  selectedTime :: "js_string option"

definition defaultTimeSlots :: "js_string list" where
  "defaultTimeSlots =
     [js ''08:00'', js ''09:00'', js ''10:00'', js ''11:00'', js ''13:00'',
      js ''14:00'', js ''15:00'', js ''16:00'', js ''17:00'']"

definition slotsToUse :: "CalendarSchedulerProps \<Rightarrow> js_string list" where
  "slotsToUse props =
     (let slots = (case timeSlots props of None \<Rightarrow> defaultTimeSlots | Some ts \<Rightarrow> ts)
      in if length slots > 0 then slots else defaultTimeSlots)"

text \<open>\<open>disabledDates?.(date)\<close>: \<open>undefined\<close>, which is falsy, when the property is absent.\<close>

definition externallyDisabled :: "CalendarSchedulerProps \<Rightarrow> Date \<Rightarrow> bool" where
  "externallyDisabled props date =
     (case disabledDates props of None \<Rightarrow> False | Some f \<Rightarrow> f date)"

definition handleDateSelect ::
  "CalendarSchedulerProps \<Rightarrow> scheduler_state \<Rightarrow> Date \<Rightarrow> scheduler_state \<times> callback_call list"
where
  "handleDateSelect props st date =
     (if externallyDisabled props date then (st, [])
      else if \<not> hasAvailableSlots date (slotsToUse props) then (st, [])
      else (st\<lparr>selectedDate := Some date, selectedTime := None\<rparr>,
            if onDateChange props then [OnDateChange date] else []))"

definition handlePrevMonth :: "TimeZone \<Rightarrow> scheduler_state \<Rightarrow> scheduler_state" where
  "handlePrevMonth tz st = st\<lparr>currentMonth := addDays tz (currentMonth st) (- 32)\<rparr>"

definition handleNextMonth :: "TimeZone \<Rightarrow> scheduler_state \<Rightarrow> scheduler_state" where
  "handleNextMonth tz st = st\<lparr>currentMonth := addDays tz (currentMonth st) 32\<rparr>"

text \<open>
  Claim C3. Selecting a date that \<open>disabledDates\<close> rejects, or on which no slot of the
  component's slot list is available, changes neither \<open>selectedDate\<close> nor \<open>selectedTime\<close>
  and calls no callback; selecting any other date sets \<open>selectedDate\<close> to it, clears
  \<open>selectedTime\<close> and calls \<open>onDateChange\<close> (when the parent passed one) with it.
\<close>

theorem handleDateSelect_selection:
  "(externallyDisabled props d \<or> (\<forall>slot \<in> set (slotsToUse props). \<not> getTimeSlotAvailability d slot)
      \<longrightarrow> handleDateSelect props st d = (st, []))
   \<and> (\<not> (externallyDisabled props d
          \<or> (\<forall>slot \<in> set (slotsToUse props). \<not> getTimeSlotAvailability d slot))
      \<longrightarrow> handleDateSelect props st d
          = (st\<lparr>selectedDate := Some d, selectedTime := None\<rparr>,
             if onDateChange props then [OnDateChange d] else []))"
  by (auto simp: handleDateSelect_def hasAvailableSlots_def list_ex_iff)

lemma slotsToUse_default:
  "slotsToUse \<lparr>timeSlots = None, onConfirm = c, onDateChange = dc, disabledDates = dd\<rparr>
   = defaultTimeSlots"
  by (simp add: slotsToUse_def defaultTimeSlots_def)

lemma default_slots_jan_2025:
  "\<forall>slot \<in> set defaultTimeSlots. \<not> getTimeSlotAvailability janFirst2025 slot"
  "\<not> (\<forall>slot \<in> set defaultTimeSlots. \<not> getTimeSlotAvailability janLast2025 slot)"
  by code_simp+


theorem handleDateSelect_selection_witness:
  "handleDateSelect
      \<lparr>timeSlots = None, onConfirm = True, onDateChange = True, disabledDates = None\<rparr>
      \<lparr>currentMonth = janLast2025, selectedDate = None, selectedTime = Some (js ''09:00'')\<rparr>
      janFirst2025
    = (\<lparr>currentMonth = janLast2025, selectedDate = None, selectedTime = Some (js ''09:00'')\<rparr>, [])
   \<and> handleDateSelect
      \<lparr>timeSlots = None, onConfirm = True, onDateChange = True, disabledDates = None\<rparr>
      \<lparr>currentMonth = janLast2025, selectedDate = None, selectedTime = Some (js ''09:00'')\<rparr>
      janLast2025
    = (\<lparr>currentMonth = janLast2025, selectedDate = Some janLast2025, selectedTime = None\<rparr>,
       [OnDateChange janLast2025])"
  using handleDateSelect_selection
      [of "\<lparr>timeSlots = None, onConfirm = True, onDateChange = True, disabledDates = None\<rparr>"
        janFirst2025
        "\<lparr>currentMonth = janLast2025, selectedDate = None, selectedTime = Some (js ''09:00'')\<rparr>"]
    handleDateSelect_selection
      [of "\<lparr>timeSlots = None, onConfirm = True, onDateChange = True, disabledDates = None\<rparr>"
        janLast2025
        "\<lparr>currentMonth = janLast2025, selectedDate = None, selectedTime = Some (js ''09:00'')\<rparr>"]
    default_slots_jan_2025
  by (simp add: slotsToUse_default externallyDisabled_def)

text \<open>
  Claim C9. Month navigation is meant to move to the next or the previous calendar month,
  but adding or subtracting 32 days skips a month near the ends of a month: from
  2025-01-31 \<open>handleNextMonth\<close> leads to 2025-03-04, so the displayed month goes from
  January to March, and from 2025-03-01 \<open>handlePrevMonth\<close> leads to 2025-01-28, from
  March to January.
\<close>

theorem month_navigation_skips_february:
  "isoDayString (currentMonth (handleNextMonth utcZone
       \<lparr>currentMonth = janLast2025, selectedDate = None, selectedTime = None\<rparr>))
     = js ''2025-03-04''
   \<and> getMonth utcZone (startOfMonth utcZone janLast2025) = 0
   \<and> getMonth utcZone (startOfMonth utcZone (currentMonth (handleNextMonth utcZone
       \<lparr>currentMonth = janLast2025, selectedDate = None, selectedTime = None\<rparr>))) = 2
   \<and> isoDayString (currentMonth (handlePrevMonth utcZone
       \<lparr>currentMonth = marFirst2025, selectedDate = None, selectedTime = None\<rparr>))
     = js ''2025-01-28''
   \<and> getMonth utcZone (startOfMonth utcZone marFirst2025) = 2
   \<and> getMonth utcZone (startOfMonth utcZone (currentMonth (handlePrevMonth utcZone
       \<lparr>currentMonth = marFirst2025, selectedDate = None, selectedTime = None\<rparr>))) = 0"
  by code_simp


subsection \<open>User events\<close>

text \<open>
  What the rendered component does on a click. A button with the attribute \<open>disabled\<close>
  dispatches no click, so its handler does not run. \<open>now\<close> is the clock at the time of the
  render (\<open>new Date()\<close>). The day buttons are the entries of \<open>gridDays\<close> (there is none when
  the grid cannot be computed), the slot buttons those of \<open>slotsToUse\<close>, shown only while a
  date is selected.
\<close>

datatype user_action =
    ClickDay nat
  | ClickSlot nat
  | ClickPrevMonth
  | ClickNextMonth
  | ClickReset
  | ClickConfirm

definition dayButtonDisabled ::
  "TimeZone \<Rightarrow> CalendarSchedulerProps \<Rightarrow> Date \<Rightarrow> scheduler_state \<Rightarrow> Date \<Rightarrow> bool"
where
  "dayButtonDisabled tz props now st day =
     (let today = setHours tz now 0 0 0 0;
          isCurrentMonth = (getMonth tz day = getMonth tz (currentMonth st));
          isPastDate = isBefore day today;
          isExternallyDisabled = externallyDisabled props day;
          dayHasAvailableSlots = (isCurrentMonth \<and> \<not> isPastDate \<and> \<not> isExternallyDisabled
                                  \<and> hasAvailableSlots day (slotsToUse props))
      in \<not> dayHasAvailableSlots \<or> isExternallyDisabled \<or> isPastDate)"

text \<open>\<open>!selectedDate || !selectedTime\<close>: \<open>undefined\<close> and the empty string are falsy.\<close>

definition confirmDisabled :: "scheduler_state \<Rightarrow> bool" where
  "confirmDisabled st =
     (selectedDate st = None \<or> selectedTime st = None \<or> selectedTime st = Some [])"

fun step ::
  "TimeZone \<Rightarrow> CalendarSchedulerProps \<Rightarrow> Date \<Rightarrow> scheduler_state \<Rightarrow> user_action
   \<Rightarrow> scheduler_state \<times> callback_call list"
where
  "step tz props now st (ClickDay i) =
     (case gridDays tz (currentMonth st) of
        None \<Rightarrow> (st, [])
      | Some (Inl e) \<Rightarrow> (st, [])
      | Some (Inr days) \<Rightarrow>
          if i < length days \<and> \<not> dayButtonDisabled tz props now st (days ! i)
          then handleDateSelect props st (days ! i)
          else (st, []))"
| "step tz props now st (ClickSlot j) =
     (case selectedDate st of
        None \<Rightarrow> (st, [])
      | Some date \<Rightarrow>
          if j < length (slotsToUse props)
          then (let slot = slotsToUse props ! j;
                    isAvailable = getTimeSlotAvailability date slot
                in if \<not> isAvailable then (st, [])
                   else (if isAvailable then st\<lparr>selectedTime := Some slot\<rparr> else st, []))
          else (st, []))"
| "step tz props now st ClickPrevMonth = (handlePrevMonth tz st, [])"
| "step tz props now st ClickNextMonth = (handleNextMonth tz st, [])"
| "step tz props now st ClickReset =
     (st\<lparr>selectedDate := None, selectedTime := None, currentMonth := now\<rparr>, [])"
| "step tz props now st ClickConfirm =
     (if confirmDisabled st then (st, [])
      else (st, if onConfirm props then [OnConfirm (selectedDate st) (selectedTime st)] else []))"

fun run ::
  "TimeZone \<Rightarrow> CalendarSchedulerProps \<Rightarrow> scheduler_state \<Rightarrow> (Date \<times> user_action) list
   \<Rightarrow> scheduler_state \<times> callback_call list"
where
  "run tz props st [] = (st, [])"
| "run tz props st ((now, a) # events) =
     (let (st', calls) = step tz props now st a;
          (st'', calls') = run tz props st' events
      in (st'', calls @ calls'))"

text \<open>The state after mounting: both \<open>currentMonth\<close> and \<open>selectedDate\<close> start as
  \<open>new Date()\<close>, no time is selected.\<close>

definition initialState :: "Date \<Rightarrow> scheduler_state" where
  "initialState now = \<lparr>currentMonth = now, selectedDate = Some now, selectedTime = None\<rparr>"

lemma step_onConfirm:
  assumes "OnConfirm d t \<in> set (snd (step tz props now st a))"
  shows "\<not> confirmDisabled st \<and> d = selectedDate st \<and> t = selectedTime st"
proof (cases a)
  case (ClickDay i)
  with assms show ?thesis
    by (auto simp: handleDateSelect_def split: option.splits sum.splits if_splits)
next
  case (ClickSlot j)
  with assms show ?thesis
    by (auto simp: Let_def split: option.splits if_splits)
next
  case ClickConfirm
  with assms show ?thesis
    by (auto split: if_splits)
qed (use assms in simp_all)

lemma run_onConfirm:
  "OnConfirm d t \<in> set (snd (run tz props st events))
   \<Longrightarrow> \<exists>date time. d = Some date \<and> t = Some time \<and> time \<noteq> []"
proof (induction events arbitrary: st)
  case Nil
  then show ?case by simp
next
  case (Cons ev events)
  obtain now a where ev: "ev = (now, a)" by (cases ev)
  obtain st' calls where s: "step tz props now st a = (st', calls)"
    by (cases "step tz props now st a")
  from Cons.prems ev s
  consider "OnConfirm d t \<in> set calls" | "OnConfirm d t \<in> set (snd (run tz props st' events))"
    by (auto split: prod.splits)
  then show ?case
  proof cases
    case 1
    with s have "OnConfirm d t \<in> set (snd (step tz props now st a))" by simp
    from step_onConfirm [OF this] show ?thesis
      by (cases "selectedDate st"; cases "selectedTime st") (auto simp: confirmDisabled_def)
  next
    case 2
    then show ?thesis by (rule Cons.IH)
  qed
qed


text \<open>
  Claim C10. \<open>onConfirm\<close> is never called with a partial selection: in every state the
  component reaches from its initial state, the confirm button is disabled unless both
  \<open>selectedDate\<close> and \<open>selectedTime\<close> are set, and every call of \<open>onConfirm\<close> made along the
  way carries a defined date and a defined time.
\<close>

theorem onConfirm_never_partial:
  assumes "run tz props (initialState now0) events = (st, calls)"
  shows "(\<not> confirmDisabled st
            \<longrightarrow> (\<exists>date time. selectedDate st = Some date \<and> selectedTime st = Some time))
         \<and> (\<forall>d t. OnConfirm d t \<in> set calls
            \<longrightarrow> (\<exists>date time. d = Some date \<and> t = Some time))"
proof (intro conjI allI impI)
  assume "\<not> confirmDisabled st"
  then show "\<exists>date time. selectedDate st = Some date \<and> selectedTime st = Some time"
    by (cases "selectedDate st"; cases "selectedTime st") (simp_all add: confirmDisabled_def)
next
  fix d t
  assume "OnConfirm d t \<in> set calls"
  with assms have "OnConfirm d t \<in> set (snd (run tz props (initialState now0) events))"
    by simp
  from run_onConfirm [OF this]
  show "\<exists>date time. d = Some date \<and> t = Some time" by blast
qed

lemma run_select_and_confirm:
  "run utcZone \<lparr>timeSlots = None, onConfirm = True, onDateChange = False, disabledDates = None\<rparr>
      (initialState janLast2025)
      [(janLast2025, ClickConfirm), (janLast2025, ClickSlot 0), (janLast2025, ClickSlot 1),
       (janLast2025, ClickConfirm)]
   = (\<lparr>currentMonth = janLast2025, selectedDate = Some janLast2025,
        selectedTime = Some (js ''09:00'')\<rparr>,
      [OnConfirm (Some janLast2025) (Some (js ''09:00''))])"
  by code_simp

theorem onConfirm_never_partial_witness:
  "\<not> confirmDisabled \<lparr>currentMonth = janLast2025, selectedDate = Some janLast2025,
        selectedTime = Some (js ''09:00'')\<rparr>
   \<and> (\<exists>date time.
        selectedDate \<lparr>currentMonth = janLast2025, selectedDate = Some janLast2025,
          selectedTime = Some (js ''09:00'')\<rparr> = Some date
        \<and> selectedTime \<lparr>currentMonth = janLast2025, selectedDate = Some janLast2025,
          selectedTime = Some (js ''09:00'')\<rparr> = Some time)
   \<and> OnConfirm (Some janLast2025) (Some (js ''09:00''))
        \<in> set [OnConfirm (Some janLast2025) (Some (js ''09:00''))]
   \<and> (\<exists>date time. Some janLast2025 = Some date \<and> Some (js ''09:00'') = Some time)"
  using onConfirm_never_partial [OF run_select_and_confirm]
  by (simp add: confirmDisabled_def js_def)

section \<open>Effects of the form and the dashboard page\<close>

text \<open>
  The handlers of \<open>NewAppointmentForm\<close> and \<open>AppointmentsPage\<close> call the API client, show
  toasts (the library sonner), write to the console and call the parent's callback. A
  handler is modelled as a function from the state and the outcomes of the API calls it
  may make to the state it leaves, the effects in the order in which they happen, and the
  error that escapes the handler, if any. An API call either fulfils with a result or
  rejects with a thrown value.
\<close>

datatype thrown = Thrown js_string

text \<open>The toast messages of the two components, by their meaning.\<close>

datatype toast_message =
    RequiredFieldsMissing
  | PatientCreationError
  | AppointmentCreated
  | AppointmentCreationError
  | AppointmentsLoadError
  | StatusUpdated
  | StatusUpdateError

datatype api_call =
    GetDentist js_string
  | GetAvailableSlots js_string Date
  | GetPatients js_string
  | CreatePatient js_string js_string js_string "js_string option"
  | CreateAppointment js_string js_string js_string Date js_string js_string "js_string option"
  | GetAppointments js_string
  | UpdateAppointment js_string js_string js_string

datatype effect =
    Api api_call
  | ToastError toast_message
  | ToastSuccess toast_message
  | ConsoleError
  | PreventDefault
  | OnSuccess

record 's handled =
  state :: 's
  effects :: "effect list"
  uncaught :: "thrown option"

definition isToast :: "effect \<Rightarrow> bool" where
  "isToast e = (case e of ToastError m \<Rightarrow> True | ToastSuccess m \<Rightarrow> True | _ \<Rightarrow> False)"

section \<open>NewAppointmentForm\<close>

record Service =
  service_id :: js_string
  service_name :: js_string

record Dentist =
  dentist_id :: js_string
  services :: "Service list"

record Patient =
  patient_id :: js_string
  patient_name :: js_string
  phone :: js_string

record form_state =
  dentist :: "Dentist option"
  date :: "Date option"
  time :: js_string
  serviceId :: js_string
  patientName :: js_string
  patientPhone :: js_string
  patientEmail :: js_string
  formNotes :: js_string
  availableSlots :: "js_string list"
  isLoading :: bool

text \<open>\<open>x || undefined\<close> for a string: the empty string is falsy.\<close>

definition orUndefined :: "js_string \<Rightarrow> js_string option" where
  "orUndefined s = (if s = [] then None else Some s)"

text \<open>The effect that loads the dentist (lines 38 to 48): the \<open>catch\<close> block is empty.\<close>

definition loadDentist ::
  "js_string \<Rightarrow> form_state \<Rightarrow> thrown + Dentist \<Rightarrow> form_state handled"
where
  "loadDentist dentistId st getDentistResult =
     (case getDentistResult of
        Inr d \<Rightarrow>
          \<lparr>state = st\<lparr>dentist := Some d\<rparr>, effects = [Api (GetDentist dentistId)], uncaught = None\<rparr>
      | Inl e \<Rightarrow>
          \<lparr>state = st, effects = [Api (GetDentist dentistId)], uncaught = None\<rparr>)"

text \<open>\<open>loadAvailableSlots\<close>; the API may answer \<open>null\<close>, then \<open>slots || []\<close> is the empty list.\<close>

definition loadAvailableSlots ::
  "form_state \<Rightarrow> thrown + js_string list option \<Rightarrow> form_state handled"
where
  "loadAvailableSlots st getAvailableSlotsResult =
     (case (date st, dentist st) of
        (Some d, Some dn) \<Rightarrow>
          (case getAvailableSlotsResult of
             Inr slots \<Rightarrow>
               \<lparr>state = st\<lparr>availableSlots := (case slots of None \<Rightarrow> [] | Some ss \<Rightarrow> ss),
                             time := []\<rparr>,
                effects = [Api (GetAvailableSlots (dentist_id dn) d)], uncaught = None\<rparr>
           | Inl e \<Rightarrow>
               \<lparr>state = st\<lparr>availableSlots := []\<rparr>,
                effects = [Api (GetAvailableSlots (dentist_id dn) d), ConsoleError],
                uncaught = None\<rparr>)
      | _ \<Rightarrow> \<lparr>state = st, effects = [], uncaught = None\<rparr>)"

text \<open>
  \<open>handleSubmit\<close>. \<open>hasEvent\<close> says whether a form event was passed (then
  \<open>preventDefault\<close> is called). The outcomes of \<open>getPatients\<close>, \<open>createPatient\<close> (which may
  fulfil with nothing), \<open>createAppointment\<close> and of the parent's \<open>onSuccess\<close> are read only
  when the corresponding call is made. Everything after \<open>setIsLoading(true)\<close> runs inside
  \<open>try\<close>, with \<open>setIsLoading(false)\<close> in \<open>finally\<close>.
\<close>

text \<open>The \<open>catch\<close> block followed by \<open>finally\<close>, after the effects \<open>done\<close> so far.\<close>

definition submitCaught :: "form_state \<Rightarrow> effect list \<Rightarrow> form_state handled" where
  "submitCaught st done =
     \<lparr>state = st\<lparr>isLoading := False\<rparr>,
      effects = done @ [ConsoleError, ToastError AppointmentCreationError],
      uncaught = None\<rparr>"

text \<open>The rest of the \<open>try\<close> block once \<open>patient\<close> has been looked up or created.\<close>

definition submitForPatient ::
  "js_string \<Rightarrow> form_state \<Rightarrow> Date \<Rightarrow> effect list \<Rightarrow> Patient option
   \<Rightarrow> thrown + unit \<Rightarrow> thrown + unit \<Rightarrow> form_state handled"
where
  "submitForPatient dentistId st d done patient createAppointmentResult onSuccessResult =
     (case patient of
        None \<Rightarrow>
          \<lparr>state = st\<lparr>isLoading := False\<rparr>,
           effects = done @ [ToastError PatientCreationError],
           uncaught = None\<rparr>
      | Some p \<Rightarrow>
          (let done' = done @
                 [Api (CreateAppointment dentistId (patient_id p) (serviceId st) d (time st)
                    (js ''scheduled'') (orUndefined (formNotes st)))]
           in case createAppointmentResult of
                Inl e \<Rightarrow> submitCaught st done'
              | Inr u \<Rightarrow>
                  (case onSuccessResult of
                     Inl e \<Rightarrow> submitCaught st (done' @ [ToastSuccess AppointmentCreated, OnSuccess])
                   | Inr u' \<Rightarrow>
                       \<lparr>state = st\<lparr>isLoading := False\<rparr>,
                        effects = done' @ [ToastSuccess AppointmentCreated, OnSuccess],
                        uncaught = None\<rparr>)))"

definition handleSubmit ::
  "js_string \<Rightarrow> form_state \<Rightarrow> bool \<Rightarrow> thrown + Patient list \<Rightarrow> thrown + Patient option
   \<Rightarrow> thrown + unit \<Rightarrow> thrown + unit \<Rightarrow> form_state handled"
where
  "handleSubmit dentistId st hasEvent getPatientsResult createPatientResult
       createAppointmentResult onSuccessResult =
     (let pre = (if hasEvent then [PreventDefault] else [])
      in case date st of
           None \<Rightarrow>
             \<lparr>state = st, effects = pre @ [ToastError RequiredFieldsMissing], uncaught = None\<rparr>
         | Some d \<Rightarrow>
             if time st = [] \<or> serviceId st = [] \<or> patientName st = [] \<or> patientPhone st = []
             then \<lparr>state = st, effects = pre @ [ToastError RequiredFieldsMissing], uncaught = None\<rparr>
             else
               (let done = pre @ [Api (GetPatients dentistId)]
                in case getPatientsResult of
                     Inl e \<Rightarrow> submitCaught st done
                   | Inr patients \<Rightarrow>
                       (case find (\<lambda>p. phone p = patientPhone st) patients of
                          Some p \<Rightarrow>
                            submitForPatient dentistId st d done (Some p)
                              createAppointmentResult onSuccessResult
                        | None \<Rightarrow>
                            (let done' = done @
                                   [Api (CreatePatient dentistId (patientName st)
                                      (patientPhone st) (orUndefined (patientEmail st)))]
                             in case createPatientResult of
                                  Inl e \<Rightarrow> submitCaught st done'
                                | Inr patient \<Rightarrow>
                                    submitForPatient dentistId st d done' patient
                                      createAppointmentResult onSuccessResult))))"

definition isApiCall :: "effect \<Rightarrow> bool" where
  "isApiCall e = (case e of Api c \<Rightarrow> True | _ \<Rightarrow> False)"

text \<open>
  Claim C4. Whenever one of \<open>date\<close>, \<open>time\<close>, \<open>serviceId\<close>, \<open>patientName\<close> and
  \<open>patientPhone\<close> is missing or empty, \<open>handleSubmit\<close> shows the error toast about the
  required fields and returns: it makes no API call and leaves the form state unchanged.
\<close>

theorem handleSubmit_requires_fields:
  assumes "date st = None \<or> time st = [] \<or> serviceId st = [] \<or> patientName st = []
           \<or> patientPhone st = []"
  shows "handleSubmit dentistId st hasEvent getPatientsResult createPatientResult
             createAppointmentResult onSuccessResult
           = \<lparr>state = st,
              effects = (if hasEvent then [PreventDefault] else [])
                          @ [ToastError RequiredFieldsMissing],
              uncaught = None\<rparr>
         \<and> \<not> list_ex isApiCall
               (effects (handleSubmit dentistId st hasEvent getPatientsResult createPatientResult
                  createAppointmentResult onSuccessResult))"
proof -
  have "handleSubmit dentistId st hasEvent getPatientsResult createPatientResult
          createAppointmentResult onSuccessResult
        = \<lparr>state = st,
           effects = (if hasEvent then [PreventDefault] else []) @ [ToastError RequiredFieldsMissing],
           uncaught = None\<rparr>"
    using assms by (cases "date st") (auto simp: handleSubmit_def Let_def)
  then show ?thesis by (simp add: isApiCall_def)
qed

definition emptyForm :: form_state where
  "emptyForm =
     \<lparr>dentist = None, date = Some janLast2025, time = [], serviceId = [],
      patientName = js ''Amal'', patientPhone = js ''0600000000'', patientEmail = [],
      formNotes = [], availableSlots = [], isLoading = False\<rparr>"

theorem handleSubmit_requires_fields_witness:
  "handleSubmit (js ''d1'') emptyForm True (Inr []) (Inr None) (Inr ()) (Inr ())
     = \<lparr>state = emptyForm, effects = [PreventDefault, ToastError RequiredFieldsMissing],
        uncaught = None\<rparr>
   \<and> \<not> list_ex isApiCall
         (effects (handleSubmit (js ''d1'') emptyForm True (Inr []) (Inr None) (Inr ()) (Inr ())))"
proof -
  have "date emptyForm = None \<or> time emptyForm = [] \<or> serviceId emptyForm = []
        \<or> patientName emptyForm = [] \<or> patientPhone emptyForm = []"
    by (simp add: emptyForm_def)
  from handleSubmit_requires_fields [OF this, of "js ''d1''" True "Inr []" "Inr None" "Inr ()" "Inr ()"]
  show ?thesis by (simp add: isApiCall_def)
qed


section \<open>AppointmentsPage\<close>

record Appointment =
  apt_id :: js_string
  apt_patientId :: js_string
  apt_status :: js_string
  apt_date :: Date
  apt_time :: js_string

datatype FilterType = FilterAll | FilterToday | FilterUpcoming | FilterPast

record page_state =
  appointments :: "Appointment list"
  patients :: "Patient list"
  filteredAppointments :: "Appointment list"
  filter' :: FilterType
  isLoading' :: bool

text \<open>
  \<open>loadAppointments\<close>. \<open>auth\<close> is the dentist of the authentication context. Up to its
  first \<open>await\<close> the function runs at once: the guard and the two requests, which
  \<open>Promise.all\<close> awaits together. The rest runs when both have settled.
\<close>

definition loadAppointments_requests :: "Dentist option \<Rightarrow> effect list" where
  "loadAppointments_requests auth =
     (case auth of
        None \<Rightarrow> []
      | Some dn \<Rightarrow> [Api (GetAppointments (dentist_id dn)), Api (GetPatients (dentist_id dn))])"

definition loadAppointments_settled ::
  "Dentist option \<Rightarrow> page_state \<Rightarrow> thrown + Appointment list \<Rightarrow> thrown + Patient list
   \<Rightarrow> page_state \<times> effect list"
where
  "loadAppointments_settled auth st getAppointmentsResult getPatientsResult =
     (case auth of
        None \<Rightarrow> (st, [])
      | Some dn \<Rightarrow>
          (case (getAppointmentsResult, getPatientsResult) of
             (Inr apptsData, Inr patientsData) \<Rightarrow>
               (st\<lparr>appointments := apptsData, patients := patientsData, isLoading' := False\<rparr>, [])
           | _ \<Rightarrow> (st\<lparr>isLoading' := False\<rparr>, [ToastError AppointmentsLoadError])))"

definition loadAppointments ::
  "Dentist option \<Rightarrow> page_state \<Rightarrow> thrown + Appointment list \<Rightarrow> thrown + Patient list
   \<Rightarrow> page_state handled"
where
  "loadAppointments auth st getAppointmentsResult getPatientsResult =
     (let (st', shown) = loadAppointments_settled auth st getAppointmentsResult getPatientsResult
      in \<lparr>state = st', effects = loadAppointments_requests auth @ shown, uncaught = None\<rparr>)"

text \<open>
  \<open>applyFilter\<close>. \<open>Array.prototype.sort\<close> with a comparison function: the result is a
  stable sort of the array whenever the function is a consistent comparator, which is all
  this model describes. An appointment's \<open>date\<close> is modelled as the time value of
  \<open>new Date(apt.date)\<close>. \<open>localeCompare\<close> depends on the locale of the browser and is a
  parameter.
\<close>

fun insertSorted :: "('a \<Rightarrow> 'a \<Rightarrow> int) \<Rightarrow> 'a \<Rightarrow> 'a list \<Rightarrow> 'a list" where
  "insertSorted compareFn x [] = [x]"
| "insertSorted compareFn x (y # ys) =
     (if compareFn x y \<le> 0 then x # y # ys else y # insertSorted compareFn x ys)"

fun js_sort :: "('a \<Rightarrow> 'a \<Rightarrow> int) \<Rightarrow> 'a list \<Rightarrow> 'a list" where
  "js_sort compareFn [] = []"
| "js_sort compareFn (x # xs) = insertSorted compareFn x (js_sort compareFn xs)"

definition compareAppointments ::
  "(js_string \<Rightarrow> js_string \<Rightarrow> int) \<Rightarrow> Appointment \<Rightarrow> Appointment \<Rightarrow> int"
where
  "compareAppointments localeCompare a b =
     (let dateA = getTime (apt_date a);
          dateB = getTime (apt_date b)
      in if dateA \<noteq> dateB then dateA - dateB
         else localeCompare (apt_time a) (apt_time b))"

definition applyFilter ::
  "TimeZone \<Rightarrow> Date \<Rightarrow> (js_string \<Rightarrow> js_string \<Rightarrow> int) \<Rightarrow> page_state \<Rightarrow> page_state"
where
  "applyFilter tz now localeCompare st =
     (let filtered = appointments st;
          filtered' =
            (case filter' st of
               FilterToday \<Rightarrow> filter (\<lambda>apt. isToday tz now (apt_date apt)) filtered
             | FilterUpcoming \<Rightarrow> filter (\<lambda>apt. isFuture now (apt_date apt)) filtered
             | FilterPast \<Rightarrow> filter (\<lambda>apt. isPast now (apt_date apt)) filtered
             | FilterAll \<Rightarrow> filtered)
      in st\<lparr>filteredAppointments := js_sort (compareAppointments localeCompare) filtered'\<rparr>)"

text \<open>A comparison of strings by code units, as an instance of the parameter.\<close>

fun codeUnitCompare :: "js_string \<Rightarrow> js_string \<Rightarrow> int" where
  "codeUnitCompare [] [] = 0"
| "codeUnitCompare [] (y # ys) = - 1"
| "codeUnitCompare (x # xs) [] = 1"
| "codeUnitCompare (x # xs) (y # ys) =
     (if x < y then - 1 else if y < x then 1 else codeUnitCompare xs ys)"

text \<open>The optimistic update of one list: \<open>prev.map(apt => apt.id === id ? {...apt, status:
  newStatus} : apt)\<close>.\<close>

definition withStatus :: "js_string \<Rightarrow> js_string \<Rightarrow> Appointment list \<Rightarrow> Appointment list" where
  "withStatus aptId newStatus prev =
     map (\<lambda>apt. if apt_id apt = aptId then apt\<lparr>apt_status := newStatus\<rparr> else apt) prev"

text \<open>
  \<open>handleStatusChange\<close>. The two state updates are rendered when the handler reaches its
  first \<open>await\<close>. \<open>appointments\<close> is then a new array, so the effect with the dependencies
  \<open>[filter, appointments]\<close> runs \<open>applyFilter\<close> on the rendered state, at the clock \<open>now1\<close>.
  The reload is not awaited: in the \<open>catch\<close> block its requests are sent before the error
  toast is shown, and it settles after the handler has returned. A fulfilled reload stores
  the array of the API in \<open>appointments\<close>, and the effect runs \<open>applyFilter\<close> again, at the
  clock \<open>now2\<close>; a rejected reload leaves \<open>appointments\<close> as it is, and the effect does not
  run.
\<close>

definition handleStatusChange ::
  "TimeZone \<Rightarrow> (js_string \<Rightarrow> js_string \<Rightarrow> int) \<Rightarrow> Date \<Rightarrow> Date
   \<Rightarrow> Dentist option \<Rightarrow> page_state \<Rightarrow> js_string \<Rightarrow> js_string \<Rightarrow> thrown + unit
   \<Rightarrow> thrown + Appointment list \<Rightarrow> thrown + Patient list \<Rightarrow> page_state handled"
where
  "handleStatusChange tz localeCompare now1 now2 auth st aptId newStatus updateAppointmentResult
       getAppointmentsResult getPatientsResult =
     (case auth of
        None \<Rightarrow> \<lparr>state = st, effects = [], uncaught = None\<rparr>
      | Some dn \<Rightarrow>
          (let st1 = applyFilter tz now1 localeCompare
                       (st\<lparr>appointments := withStatus aptId newStatus (appointments st),
                           filteredAppointments :=
                             withStatus aptId newStatus (filteredAppointments st)\<rparr>);
               update = Api (UpdateAppointment aptId newStatus (dentist_id dn));
               (st2, shown) =
                 loadAppointments_settled auth st1 getAppointmentsResult getPatientsResult;
               st3 = (case (getAppointmentsResult, getPatientsResult) of
                        (Inr apptsData, Inr patientsData) \<Rightarrow>
                          applyFilter tz now2 localeCompare st2
                      | _ \<Rightarrow> st2)
           in case updateAppointmentResult of
                Inr u \<Rightarrow>
                  \<lparr>state = st3,
                   effects = [update, ToastSuccess StatusUpdated]
                             @ loadAppointments_requests auth @ shown,
                   uncaught = None\<rparr>
              | Inl e \<Rightarrow>
                  \<lparr>state = st3,
                   effects = [update] @ loadAppointments_requests auth
                             @ [ToastError StatusUpdateError] @ shown,
                   uncaught = None\<rparr>))"


section \<open>Error handling at the API call sites\<close>

text \<open>Whether one of the API calls that \<open>handleSubmit\<close> makes rejects: the calls after a
  rejected one are not made, and \<open>createPatient\<close> only when no patient has the phone number.\<close>

definition submitApiRejected ::
  "form_state \<Rightarrow> thrown + Patient list \<Rightarrow> thrown + Patient option \<Rightarrow> thrown + unit \<Rightarrow> bool"
where
  "submitApiRejected st getPatientsResult createPatientResult createAppointmentResult =
     (date st \<noteq> None \<and> time st \<noteq> [] \<and> serviceId st \<noteq> [] \<and> patientName st \<noteq> []
      \<and> patientPhone st \<noteq> []
      \<and> (case getPatientsResult of
             Inl e \<Rightarrow> True
           | Inr found \<Rightarrow>
               (case find (\<lambda>p. phone p = patientPhone st) found of
                  Some p \<Rightarrow> isl createAppointmentResult
                | None \<Rightarrow>
                    (case createPatientResult of
                       Inl e \<Rightarrow> True
                     | Inr None \<Rightarrow> False
                     | Inr (Some p) \<Rightarrow> isl createAppointmentResult))))"

lemma handleSubmit_uncaught:
  "uncaught (handleSubmit dentistId st hasEvent gp cp ca os) = None"
  by (simp add: handleSubmit_def submitForPatient_def submitCaught_def Let_def
      split: option.splits sum.splits)

lemma handleSubmit_rejected_toast:
  assumes "submitApiRejected st gp cp ca"
  shows "ToastError AppointmentCreationError
           \<in> set (effects (handleSubmit dentistId st hasEvent gp cp ca os))"
  using assms
  by (auto simp: submitApiRejected_def handleSubmit_def submitForPatient_def submitCaught_def
      Let_def split: option.splits sum.splits)

lemma loadAppointments_rejected_toast:
  assumes "auth \<noteq> None" and "isl ga \<or> isl gp"
  shows "ToastError AppointmentsLoadError \<in> set (effects (loadAppointments auth st ga gp))"
  using assms
  by (auto simp: loadAppointments_def loadAppointments_settled_def split: sum.splits)

lemma handleStatusChange_rejected_toast:
  assumes "auth \<noteq> None" and "isl up"
  shows "ToastError StatusUpdateError
           \<in> set (effects (handleStatusChange tz lc now1 now2 auth st aptId newStatus up ga gp))"
  using assms
  by (auto simp: handleStatusChange_def Let_def split: sum.splits prod.splits)

lemma loadAvailableSlots_rejected:
  assumes "date st = Some d" and "dentist st = Some dn" and "isl gs"
  shows "effects (loadAvailableSlots st gs) = [Api (GetAvailableSlots (dentist_id dn) d), ConsoleError]
         \<and> state (loadAvailableSlots st gs) = st\<lparr>availableSlots := []\<rparr>"
  using assms by (auto simp: loadAvailableSlots_def split: sum.splits)

text \<open>
  Claim C5, as the code has it. Every error thrown by an API call is caught at its call
  site: none escapes a handler. A rejected call of \<open>loadAppointments\<close>, \<open>handleSubmit\<close> or
  \<open>handleStatusChange\<close> is shown as an error toast. A rejected \<open>getDentist\<close> is ignored
  without any effect, and a rejected \<open>getAvailableSlots\<close> is written to the console and
  empties the list of slots; neither shows a toast.
\<close>

theorem api_errors_caught:
  "uncaught (loadDentist dentistId fs gd) = None
   \<and> uncaught (loadAvailableSlots fs gs) = None
   \<and> uncaught (handleSubmit dentistId fs hasEvent gp cp ca os) = None
   \<and> uncaught (loadAppointments auth ps ga gp') = None
   \<and> uncaught (handleStatusChange tz localeCompare now1 now2 auth ps aptId newStatus up ga gp')
       = None
   \<and> (auth \<noteq> None \<and> (isl ga \<or> isl gp')
        \<longrightarrow> ToastError AppointmentsLoadError \<in> set (effects (loadAppointments auth ps ga gp')))
   \<and> (auth \<noteq> None \<and> isl up
        \<longrightarrow> ToastError StatusUpdateError
              \<in> set (effects (handleStatusChange tz localeCompare now1 now2 auth ps aptId newStatus
                              up ga gp')))
   \<and> (submitApiRejected fs gp cp ca
        \<longrightarrow> ToastError AppointmentCreationError
              \<in> set (effects (handleSubmit dentistId fs hasEvent gp cp ca os)))
   \<and> (isl gd
        \<longrightarrow> state (loadDentist dentistId fs gd) = fs
            \<and> effects (loadDentist dentistId fs gd) = [Api (GetDentist dentistId)])
   \<and> (date fs = Some d \<and> dentist fs = Some dn \<and> isl gs
        \<longrightarrow> state (loadAvailableSlots fs gs) = fs\<lparr>availableSlots := []\<rparr>
            \<and> effects (loadAvailableSlots fs gs)
                = [Api (GetAvailableSlots (dentist_id dn) d), ConsoleError])"
proof (intro conjI impI)
  show "uncaught (loadDentist dentistId fs gd) = None"
    by (simp add: loadDentist_def split: sum.splits)
  show "uncaught (loadAvailableSlots fs gs) = None"
    by (simp add: loadAvailableSlots_def split: sum.splits option.splits)
  show "uncaught (handleSubmit dentistId fs hasEvent gp cp ca os) = None"
    by (rule handleSubmit_uncaught)
  show "uncaught (loadAppointments auth ps ga gp') = None"
    by (simp add: loadAppointments_def split: prod.splits)
  show "uncaught (handleStatusChange tz localeCompare now1 now2 auth ps aptId newStatus up ga gp') = None"
    by (simp add: handleStatusChange_def Let_def split: option.splits sum.splits prod.splits)
next
  assume "auth \<noteq> None \<and> (isl ga \<or> isl gp')"
  then show "ToastError AppointmentsLoadError \<in> set (effects (loadAppointments auth ps ga gp'))"
    by (intro loadAppointments_rejected_toast) simp_all
next
  assume "auth \<noteq> None \<and> isl up"
  then show "ToastError StatusUpdateError
      \<in> set (effects (handleStatusChange tz localeCompare now1 now2 auth ps aptId newStatus up ga gp'))"
    by (intro handleStatusChange_rejected_toast) simp_all
next
  assume "submitApiRejected fs gp cp ca"
  then show "ToastError AppointmentCreationError
      \<in> set (effects (handleSubmit dentistId fs hasEvent gp cp ca os))"
    by (rule handleSubmit_rejected_toast)
next
  assume "isl gd"
  then show "state (loadDentist dentistId fs gd) = fs"
    and "effects (loadDentist dentistId fs gd) = [Api (GetDentist dentistId)]"
    by (auto simp: loadDentist_def split: sum.splits)
next
  assume a: "date fs = Some d \<and> dentist fs = Some dn \<and> isl gs"
  then show "state (loadAvailableSlots fs gs) = fs\<lparr>availableSlots := []\<rparr>"
    and "effects (loadAvailableSlots fs gs)
          = [Api (GetAvailableSlots (dentist_id dn) d), ConsoleError]"
    using loadAvailableSlots_rejected [of fs d dn gs] by simp_all
qed


definition filledForm :: form_state where
  "filledForm =
     \<lparr>dentist = Some \<lparr>dentist_id = js ''d1'', services = []\<rparr>, date = Some janLast2025,
      time = js ''09:00'', serviceId = js ''s1'', patientName = js ''Amal'',
      patientPhone = js ''0600000000'', patientEmail = [], formNotes = [],
      availableSlots = [js ''09:00''], isLoading = False\<rparr>"

definition offline :: thrown where
  "offline = Thrown (js ''offline'')"

definition somePage :: page_state where
  "somePage =
     \<lparr>appointments =
        [\<lparr>apt_id = js ''a1'', apt_patientId = js ''p1'', apt_status = js ''pending'',
          apt_date = janLast2025, apt_time = js ''09:00''\<rparr>,
         \<lparr>apt_id = js ''a2'', apt_patientId = js ''p2'', apt_status = js ''pending'',
          apt_date = janFirst2025, apt_time = js ''10:00''\<rparr>],
      patients = [],
      filteredAppointments =
        [\<lparr>apt_id = js ''a2'', apt_patientId = js ''p2'', apt_status = js ''pending'',
          apt_date = janFirst2025, apt_time = js ''10:00''\<rparr>,
         \<lparr>apt_id = js ''a1'', apt_patientId = js ''p1'', apt_status = js ''pending'',
          apt_date = janLast2025, apt_time = js ''09:00''\<rparr>],
      filter' = FilterAll, isLoading' = False\<rparr>"

text \<open>The claim as stated fails: a rejected \<open>getDentist\<close> and a rejected
  \<open>getAvailableSlots\<close> show no toast.\<close>

theorem api_error_without_toast:
  "\<not> list_ex isToast (effects (loadDentist (js ''d1'') filledForm (Inl offline)))
   \<and> \<not> list_ex isToast (effects (loadAvailableSlots filledForm (Inl offline)))"
  by (simp add: loadDentist_def loadAvailableSlots_def filledForm_def isToast_def)

theorem api_errors_caught_witness:
  "ToastError AppointmentsLoadError
     \<in> set (effects (loadAppointments (Some \<lparr>dentist_id = js ''d1'', services = []\<rparr>) somePage
                (Inl offline) (Inr [])))
   \<and> ToastError StatusUpdateError
     \<in> set (effects (handleStatusChange utcZone codeUnitCompare janLast2025 janLast2025
                (Some \<lparr>dentist_id = js ''d1'', services = []\<rparr>) somePage
                (js ''a1'') (js ''confirmed'') (Inl offline) (Inl offline) (Inr [])))
   \<and> ToastError AppointmentCreationError
     \<in> set (effects (handleSubmit (js ''d1'') filledForm True (Inl offline) (Inr None)
                (Inr ()) (Inr ())))
   \<and> state (loadDentist (js ''d1'') filledForm (Inl offline)) = filledForm
   \<and> effects (loadDentist (js ''d1'') filledForm (Inl offline)) = [Api (GetDentist (js ''d1''))]
   \<and> state (loadAvailableSlots filledForm (Inl offline)) = filledForm\<lparr>availableSlots := []\<rparr>
   \<and> effects (loadAvailableSlots filledForm (Inl offline))
       = [Api (GetAvailableSlots (js ''d1'') janLast2025), ConsoleError]"
proof -
  have a: "submitApiRejected filledForm (Inl offline) (Inr None) (Inr ())"
    by (simp add: submitApiRejected_def filledForm_def js_def)
  have b: "date filledForm = Some janLast2025
      \<and> dentist filledForm = Some \<lparr>dentist_id = js ''d1'', services = []\<rparr> \<and> isl (Inl offline)"
    by (simp add: filledForm_def)
  show ?thesis
    using a b
      api_errors_caught [of "js ''d1''" filledForm "Inl offline" "Inl offline" True "Inl offline"
        "Inr None" "Inr ()" "Inr ()" "Some \<lparr>dentist_id = js ''d1'', services = []\<rparr>" somePage
        "Inl offline" "Inr []" utcZone codeUnitCompare janLast2025 janLast2025 "js ''a1''"
        "js ''confirmed''" "Inl offline" janLast2025 "\<lparr>dentist_id = js ''d1'', services = []\<rparr>"]
    by simp
qed

section \<open>Optimistic status update\<close>












section \<open>Filtering and sorting the appointments\<close>

text \<open>What the filters mean: today is the local calendar day of the clock (the date and
  the clock have the same start of the day in the local time zone), a future date lies
  after the clock and a past date before it.\<close>

definition satisfiesFilter :: "TimeZone \<Rightarrow> Date \<Rightarrow> FilterType \<Rightarrow> Appointment \<Rightarrow> bool" where
  "satisfiesFilter tz now f apt =
     (case f of
        FilterAll \<Rightarrow> True
      | FilterToday \<Rightarrow> startOfDay tz (apt_date apt) = startOfDay tz now
      | FilterUpcoming \<Rightarrow> now < apt_date apt
      | FilterPast \<Rightarrow> apt_date apt < now)"








lemma isToday_localDay:
  assumes "calendarZone tz"
  shows "isToday tz now d \<longleftrightarrow> localDay tz d = localDay tz now"
proof -
  have inj: "n = n'" if eq: "atLocal tz n 0 = atLocal tz n' 0" for n n'
  proof -
    have "localDay tz (atLocal tz n 0) = n" and "localDay tz (atLocal tz n' 0) = n'"
      by (rule localDay_atLocal [OF assms]; simp add: msPerDay_def)+
    with arg_cong [OF eq, of "localDay tz"] show ?thesis
      by (simp only:)
  qed
  have today: "isToday tz now d
      \<longleftrightarrow> atLocal tz (localDay tz d) 0 = atLocal tz (localDay tz now) 0"
    by (simp add: isToday_def isSameDay_def startOfDay_def setHours_atLocal MakeTime_def)
  show ?thesis
  proof
    assume "isToday tz now d"
    then have "atLocal tz (localDay tz d) 0 = atLocal tz (localDay tz now) 0"
      by (simp only: today)
    then show "localDay tz d = localDay tz now"
      by (rule inj)
  next
    assume "localDay tz d = localDay tz now"
    then show "isToday tz now d"
      by (simp only: today)
  qed
qed

lemma satisfiesFilter_today:
  assumes "calendarZone tz"
  shows "satisfiesFilter tz now FilterToday apt \<longleftrightarrow> localDay tz (apt_date apt) = localDay tz now"
  using isToday_localDay [OF assms, of now "apt_date apt"]
  by (simp add: satisfiesFilter_def isToday_def isSameDay_def)












end
